theory Spec2Isabelle
  imports Complex_Main "HOL-Library.Word"
begin

unbundle bit_operations_syntax

section \<open>Native core: the seed-byte transform (cbm\_core.c)\<close>

type_synonym byte = "8 word"

text \<open>
  \<^verbatim>\<open>#define PHI 0.618033988749895\<close>

  The macro is a decimal literal of type double. It is kept here as the exact decimal
  fraction; the nearest double differs from it by less than \<open>10\<^sup>-\<^sup>1\<^sup>6\<close>, far less than the
  distance of \<open>PHI * 255\<close> (about 157.5987) from an integer, so the truncation below is
  the one the compiled code performs.
\<close>

definition PHI :: real where
  "PHI = 618033988749895 / 1000000000000000"

text \<open>
  \<^verbatim>\<open>(unsigned char)(PHI * 255)\<close>: a double converted to an unsigned char is truncated
  towards zero; the value is positive, so this is the floor.
\<close>

definition transmute_key :: byte where
  "transmute_key = word_of_int \<lfloor>PHI * 255\<rfloor>"

text \<open>
  \<^verbatim>\<open>
  void cbm_holographic_transmute(unsigned char* seed, int size) {
      for (int i = 0; i < size; i++) {
          seed[i] ^= (unsigned char)(PHI * 255);
      }
      printf("... [NATIVE]: Transmutation Complete.\n");
  }
  \<close>
  The buffer behind the pointer is a list of bytes. The loop is a recursion on the index
  \<open>i\<close>; \<open>size\<close> and \<open>i\<close> are C ints, and \<open>i\<close> never passes \<open>size\<close>, so no
  increment overflows. A write at an index outside the buffer is undefined behaviour in
  C: the model returns \<open>None\<close> there. The \<^verbatim>\<open>printf\<close> does not touch the buffer and
  is not part of the returned value.
\<close>

function transmute_loop :: "byte list \<Rightarrow> int \<Rightarrow> int \<Rightarrow> byte list option" where
  "transmute_loop seed sz i =
     (if i < sz then
        (if 0 \<le> i \<and> nat i < length seed
         then transmute_loop (seed[nat i := seed ! nat i XOR transmute_key]) sz (i + 1)
         else None)
      else Some seed)"
  by pat_completeness auto
termination
  by (relation "measure (\<lambda>(seed, sz, i). nat (sz - i))") auto

declare transmute_loop.simps [simp del]

definition cbm_holographic_transmute :: "byte list \<Rightarrow> int \<Rightarrow> byte list option" where
  "cbm_holographic_transmute seed sz = transmute_loop seed sz 0"

section \<open>The container loader (cbm\_loader.cpp): data model\<close>

type_synonym u16 = "16 word"
type_synonym u32 = "32 word"
type_synonym u64 = "64 word"

text \<open>A device or host pointer is a 64-bit address; \<^verbatim>\<open>nullptr\<close> is address 0.\<close>

type_synonym ptr = "64 word"

text \<open>
  \<^verbatim>\<open>
  struct CBMHeader   { char magic[4]; uint16_t version; uint16_t flags; uint64_t reserved; };
  struct CBMMetadata { char model_name[64]; char architecture[32];
                       uint32_t seed_size; uint32_t graph_node_count; };
  struct CBM_Model   { CBMHeader header; CBMMetadata metadata; std::vector<uint8_t> seed;
                       void* d_weights; size_t weight_count; };
  \<close>
\<close>

record CBMHeader =
  magic :: "byte list"
  version :: u16
  flags :: u16
  reserved :: u64

record CBMMetadata =
  model_name :: "byte list"
  architecture :: "byte list"
  seed_size :: u32
  graph_node_count :: u32

record CBM_Model =
  header :: CBMHeader
  metadata :: CBMMetadata
  seed :: "byte list"
  d_weights :: ptr
  weight_count :: u64

text \<open>
  \<^verbatim>\<open>#define CBM_MAGIC "CBNQ"\<close>: the string literal, with its terminating NUL.
\<close>

definition CBM_MAGIC :: "byte list" where
  "CBM_MAGIC = [0x43, 0x42, 0x4E, 0x51, 0]"

text \<open>\<^verbatim>\<open>CBM_Model model = {};\<close> (main): every member is zero, the vector is empty.\<close>

definition CBM_Model_zero :: CBM_Model where
  "CBM_Model_zero =
     \<lparr>header = \<lparr>magic = replicate 4 0, version = 0, flags = 0, reserved = 0\<rparr>,
      metadata = \<lparr>model_name = replicate 64 0, architecture = replicate 32 0,
                  seed_size = 0, graph_node_count = 0\<rparr>,
      seed = [], d_weights = 0, weight_count = 0\<rparr>"

subsection \<open>Object representation of the two plain structs\<close>

text \<open>
  The loader reads the file straight into the memory of the structs
  (\<^verbatim>\<open>reinterpret_cast<char*>(&model->header)\<close>), so the model needs the bytes of a struct
  and the struct of its bytes. The layout is the one of the hosts the CUDA runtime
  supports: little-endian, natural alignment, which gives \<open>sizeof(CBMHeader) = 16\<close> and
  \<open>sizeof(CBMMetadata) = 104\<close> with no padding.
\<close>

definition sizeof_CBMHeader :: nat where
  "sizeof_CBMHeader = 16"

definition sizeof_CBMMetadata :: nat where
  "sizeof_CBMMetadata = 104"

text \<open>A \<^verbatim>\<open>char[n]\<close> member holds exactly \<open>n\<close> bytes.\<close>

definition char_array :: "nat \<Rightarrow> byte list \<Rightarrow> byte list" where
  "char_array n bs = take n bs @ replicate (n - length bs) 0"

definition le_bytes :: "nat \<Rightarrow> 'a::len word \<Rightarrow> byte list" where
  "le_bytes n w = map (\<lambda>i. ucast (drop_bit (8 * i) w)) [0..<n]"

fun le_word :: "byte list \<Rightarrow> 'a::len word" where
  "le_word [] = 0"
| "le_word (b # bs) = ucast b OR push_bit 8 (le_word bs)"

definition CBMHeader_bytes :: "CBMHeader \<Rightarrow> byte list" where
  "CBMHeader_bytes h =
     char_array 4 (magic h) @ le_bytes 2 (version h) @ le_bytes 2 (flags h)
       @ le_bytes 8 (reserved h)"

definition CBMHeader_of_bytes :: "byte list \<Rightarrow> CBMHeader" where
  "CBMHeader_of_bytes bs =
     \<lparr>magic = take 4 bs,
      version = le_word (take 2 (drop 4 bs)),
      flags = le_word (take 2 (drop 6 bs)),
      reserved = le_word (take 8 (drop 8 bs))\<rparr>"

definition CBMMetadata_bytes :: "CBMMetadata \<Rightarrow> byte list" where
  "CBMMetadata_bytes md =
     char_array 64 (model_name md) @ char_array 32 (architecture md)
       @ le_bytes 4 (seed_size md) @ le_bytes 4 (graph_node_count md)"

definition CBMMetadata_of_bytes :: "byte list \<Rightarrow> CBMMetadata" where
  "CBMMetadata_of_bytes bs =
     \<lparr>model_name = take 64 bs,
      architecture = take 32 (drop 64 bs),
      seed_size = le_word (take 4 (drop 96 bs)),
      graph_node_count = le_word (take 4 (drop 100 bs))\<rparr>"

subsection \<open>The library calls the loader makes\<close>

text \<open>
  \<^verbatim>\<open>std::ifstream\<close>, as far as the loader uses it: the bytes of the file, the read
  position and the fail bit. \<^verbatim>\<open>file.read(dst, n)\<close> on a stream whose fail bit is set
  extracts nothing; otherwise it extracts the bytes that remain, at most \<open>n\<close>, and sets
  the fail bit when they are fewer than \<open>n\<close>. The loader never looks at the fail bit.
\<close>

record ifstream =
  content :: "byte list"
  gpos :: nat
  failbit :: bool

definition ifstream_read :: "ifstream \<Rightarrow> nat \<Rightarrow> byte list \<times> ifstream" where
  "ifstream_read file n =
     (if failbit file then ([], file)
      else let got = take n (drop (gpos file) (content file))
           in (got, file\<lparr>gpos := gpos file + length got, failbit := length got < n\<rparr>))"

text \<open>
  The bytes a \<^verbatim>\<open>read\<close> extracted overwrite the start of the destination; the rest of
  the destination keeps what it held.
\<close>

definition store_bytes :: "byte list \<Rightarrow> byte list \<Rightarrow> byte list" where
  "store_bytes got dst = got @ drop (length got) dst"

text \<open>
  \<^verbatim>\<open>strncmp(s1, s2, n)\<close>: compares at most \<open>n\<close> characters as unsigned chars and stops
  after a NUL. \<open>None\<close> stands for a read past the end of an array, which the call in the
  loader never makes: both arrays hold at least the 4 bytes compared.
\<close>

fun strncmp :: "byte list \<Rightarrow> byte list \<Rightarrow> nat \<Rightarrow> int option" where
  "strncmp s1 s2 0 = Some 0"
| "strncmp (a # s1) (b # s2) (Suc n) =
     (if a \<noteq> b then Some (uint a - uint b)
      else if a = 0 then Some 0
      else strncmp s1 s2 n)"
| "strncmp _ _ (Suc n) = None"

text \<open>\<^verbatim>\<open>vector::resize(n)\<close>: keeps the first \<open>n\<close> elements, appends zeros up to \<open>n\<close>.\<close>

definition vector_resize :: "byte list \<Rightarrow> nat \<Rightarrow> byte list" where
  "vector_resize v n = take n v @ replicate (n - length v) 0"

text \<open>
  \<^verbatim>\<open>std::cout << char_array\<close> prints up to the first NUL. The slots need not hold one;
  the model lets the print run on to the end of the metadata block and no further.
\<close>

definition c_str :: "byte list \<Rightarrow> byte list" where
  "c_str bs = takeWhile (\<lambda>b. b \<noteq> 0) bs"

text \<open>What the program writes to its output streams, one constructor per message.\<close>

type_synonym cudaError_t = int

definition cudaSuccess :: cudaError_t where
  "cudaSuccess = 0"

datatype message =
    Banner
  | Usage
  | Failed_to_open string
  | Invalid_CBM_file
  | CBM_File_Version int int
  | Model_line "byte list"
  | Architecture_line "byte list"
  | Seed_Size_line u32
  | Unfolding_line
  | Target_Parameters u64
  | VRAM_Allocation_Failed cudaError_t
  | Launching_Lambda_Kernel int int
  | Materialization_Complete
  | Model_ready ptr

section \<open>load\_cbm\_file\<close>

text \<open>
  \<^verbatim>\<open>
  bool load_cbm_file(const char* path, CBM_Model* model) {
      std::ifstream file(path, std::ios::binary);
      if (!file.is_open()) { std::cerr << "Failed to open: " << path; return false; }
      file.read(reinterpret_cast<char*>(&model->header), sizeof(CBMHeader));
      if (strncmp(model->header.magic, CBM_MAGIC, 4) != 0) {
          std::cerr << "Invalid CBM file (bad magic)"; return false; }
      std::cout << "CBM File Version: " << (model->header.version >> 8) << "."
                << (model->header.version & 0xFF);
      file.read(reinterpret_cast<char*>(&model->metadata), sizeof(CBMMetadata));
      std::cout << model_name, architecture, seed_size;
      model->seed.resize(model->metadata.seed_size);
      file.read(reinterpret_cast<char*>(model->seed.data()), model->metadata.seed_size);
      file.close();
      return true;
  }
  \<close>
  The file system is a map from paths to the contents of the files that can be opened.
  The function returns its boolean, the record behind \<open>model\<close> as the call leaves it, the
  messages written, and (for the claims about how far the file is read) the stream as it
  is when the function returns. In \<open>version >> 8\<close> and \<open>version & 0xFF\<close> the 16-bit field
  is promoted to \<open>int\<close> first. Host memory for the vector is taken to be available.
\<close>

definition load_cbm_file ::
  "(string \<Rightarrow> byte list option) \<Rightarrow> string \<Rightarrow> CBM_Model
     \<Rightarrow> bool \<times> CBM_Model \<times> message list \<times> ifstream option" where
  "load_cbm_file fs path model =
     (case fs path of
        None \<Rightarrow> (False, model, [Failed_to_open path], None)
      | Some bytes \<Rightarrow>
          let file0 = \<lparr>content = bytes, gpos = 0, failbit = False\<rparr>;
              (got1, file1) = ifstream_read file0 sizeof_CBMHeader;
              model1 = model\<lparr>header :=
                         CBMHeader_of_bytes (store_bytes got1 (CBMHeader_bytes (header model)))\<rparr>
          in if strncmp (magic (header model1)) CBM_MAGIC 4 \<noteq> Some 0
             then (False, model1, [Invalid_CBM_file], Some file1)
             else
               let out1 = [CBM_File_Version
                             (drop_bit 8 (uint (version (header model1))))
                             (uint (version (header model1)) AND 0xFF)];
                   (got2, file2) = ifstream_read file1 sizeof_CBMMetadata;
                   model2 = model1\<lparr>metadata :=
                              CBMMetadata_of_bytes
                                (store_bytes got2 (CBMMetadata_bytes (metadata model1)))\<rparr>;
                   out2 = out1 @
                          [Model_line (c_str (CBMMetadata_bytes (metadata model2))),
                           Architecture_line
                             (c_str (drop 64 (CBMMetadata_bytes (metadata model2)))),
                           Seed_Size_line (seed_size (metadata model2))];
                   model3 = model2\<lparr>seed :=
                              vector_resize (seed model2) (unat (seed_size (metadata model2)))\<rparr>;
                   (got3, file3) = ifstream_read file2 (unat (seed_size (metadata model3)));
                   model4 = model3\<lparr>seed := store_bytes got3 (seed model3)\<rparr>
               in (True, model4, out2, Some file3))"

section \<open>materialize\_intelligence and destroy\_model\<close>

text \<open>
  The CUDA runtime is not part of the repository. Its calls are recorded in a trace, and
  what \<^verbatim>\<open>cudaMalloc\<close> answers is a parameter: from the calls made so far, the pointer
  variable's current value and the size requested, the error code returned and the value
  the pointer variable holds afterwards. The second field is the indeterminate value of
  the uninitialised local \<^verbatim>\<open>d_seed\<close>.
\<close>

datatype cuda_call =
    CudaMalloc u64 cudaError_t ptr
  | CudaMemcpyHostToDevice ptr "byte list" u64
  | CudaFree ptr

record cuda_env =
  cudaMalloc :: "cuda_call list \<Rightarrow> ptr \<Rightarrow> u64 \<Rightarrow> cudaError_t \<times> ptr"
  d_seed_uninit :: ptr

text \<open>
  \<^verbatim>\<open>
  int threads = 256;
  int blocks = (param_count + threads - 1) / threads;
  \<close>
  \<open>param_count\<close> is a \<open>size_t\<close>: the sum and the quotient are computed in unsigned
  64-bit arithmetic, and the quotient is then narrowed to a 32-bit \<open>int\<close>.
\<close>

definition launch_threads :: int where
  "launch_threads = 256"

definition launch_blocks :: "u64 \<Rightarrow> int" where
  "launch_blocks param_count =
     sint (ucast ((param_count + word_of_int launch_threads - 1) div word_of_int launch_threads)
             :: 32 word)"

text \<open>
  \<^verbatim>\<open>
  bool materialize_intelligence(CBM_Model* model, size_t param_count) {
      model->weight_count = param_count;
      cudaError_t err = cudaMalloc(&model->d_weights, param_count * sizeof(float));
      if (err != cudaSuccess) { std::cerr << "VRAM Allocation Failed: " << ...; return false; }
      uint8_t* d_seed;
      cudaMalloc(&d_seed, model->seed.size());
      cudaMemcpy(d_seed, model->seed.data(), model->seed.size(), cudaMemcpyHostToDevice);
      int threads = 256;
      int blocks = (param_count + threads - 1) / threads;
      std::cout << "Launching Lambda Kernel (Blocks: " << blocks << ", Threads: " << threads;
      // In production: Launch lambda_unfold_kernel here via driver API
      cudaFree(d_seed);
      return true;
  }
  \<close>
  \<open>sizeof(float)\<close> is 4 and the product is a \<open>size_t\<close>, so it wraps at \<open>2\<^sup>6\<^sup>4\<close>.
\<close>

definition materialize_intelligence ::
  "cuda_env \<Rightarrow> CBM_Model \<Rightarrow> cuda_call list \<Rightarrow> u64
     \<Rightarrow> bool \<times> CBM_Model \<times> cuda_call list \<times> message list" where
  "materialize_intelligence env model trace param_count =
     (let out0 = [Unfolding_line, Target_Parameters param_count];
          model1 = model\<lparr>weight_count := param_count\<rparr>;
          (err, p) = cudaMalloc env trace (d_weights model1) (param_count * 4);
          model2 = model1\<lparr>d_weights := p\<rparr>;
          trace1 = trace @ [CudaMalloc (param_count * 4) err p]
      in if err \<noteq> cudaSuccess
         then (False, model2, trace1, out0 @ [VRAM_Allocation_Failed err])
         else
           let n = (of_nat (length (seed model2)) :: u64);
               (err2, d_seed) = cudaMalloc env trace1 (d_seed_uninit env) n;
               trace2 = trace1 @ [CudaMalloc n err2 d_seed,
                                  CudaMemcpyHostToDevice d_seed (seed model2) n];
               threads = launch_threads;
               blocks = launch_blocks param_count;
               out1 = out0 @ [Launching_Lambda_Kernel blocks threads];
               trace3 = trace2 @ [CudaFree d_seed]
           in (True, model2, trace3, out1 @ [Materialization_Complete]))"

text \<open>
  \<^verbatim>\<open>
  void destroy_model(CBM_Model* model) {
      if (model->d_weights) { cudaFree(model->d_weights); model->d_weights = nullptr; }
      model->seed.clear();
  }
  \<close>
\<close>

definition destroy_model :: "CBM_Model \<Rightarrow> cuda_call list \<Rightarrow> CBM_Model \<times> cuda_call list" where
  "destroy_model model trace =
     (let (model1, trace1) =
            (if d_weights model \<noteq> 0
             then (model\<lparr>d_weights := 0\<rparr>, trace @ [CudaFree (d_weights model)])
             else (model, trace))
      in (model1\<lparr>seed := []\<rparr>, trace1))"

section \<open>main\<close>

text \<open>
  \<^verbatim>\<open>std::stoull(argv[2])\<close>, base 10, as the C++ standard library defines it through
  \<^verbatim>\<open>strtoull\<close>: leading white space is skipped, one sign is accepted, the longest run
  of decimal digits is converted and what follows is ignored. With no digit it throws
  \<^verbatim>\<open>std::invalid_argument\<close>; with a value above \<open>2\<^sup>6\<^sup>4 - 1\<close> it throws
  \<^verbatim>\<open>std::out_of_range\<close>; a minus sign negates the value in the unsigned type.
\<close>

datatype exn = invalid_argument | out_of_range

definition isspace :: "char \<Rightarrow> bool" where
  "isspace c \<longleftrightarrow> (of_char c :: nat) = 32 \<or> (9 \<le> (of_char c :: nat) \<and> (of_char c :: nat) \<le> 13)"

definition isdigit :: "char \<Rightarrow> bool" where
  "isdigit c \<longleftrightarrow> 48 \<le> (of_char c :: nat) \<and> (of_char c :: nat) \<le> 57"

definition stoull :: "string \<Rightarrow> exn + u64" where
  "stoull str =
     (let s1 = dropWhile isspace str;
          (neg, s2) = (case s1 of
                         [] \<Rightarrow> (False, s1)
                       | c # r \<Rightarrow> if c = CHR ''-'' then (True, r)
                                  else if c = CHR ''+'' then (False, r)
                                  else (False, s1));
          ds = takeWhile isdigit s2;
          v = foldl (\<lambda>a c. 10 * a + (of_char c - 48)) (0::int) ds
      in if ds = [] then Inl invalid_argument
         else if 2 ^ 64 \<le> v then Inl out_of_range
         else Inr (if neg then - word_of_int v else word_of_int v))"

text \<open>
  \<^verbatim>\<open>
  int main(int argc, char** argv) {
      (banner)
      if (argc < 2) { (usage) return 1; }
      CBM_Model model = {};
      if (!load_cbm_file(argv[1], &model)) return 1;
      size_t param_count = 7000000000ULL;
      if (argc >= 3) param_count = std::stoull(argv[2]);
      if (!materialize_intelligence(&model, param_count)) return 1;
      std::cout << "Model ready at VRAM address: " << model.d_weights;
      destroy_model(&model);
      return 0;
  }
  \<close>
  \<open>argv\<close> is the list of the program's arguments, the program name first, so \<open>argc\<close> is
  its length. An exception of \<^verbatim>\<open>stoull\<close> is caught nowhere: the program ends in
  \<^verbatim>\<open>std::terminate\<close> and returns no exit code of its own.
\<close>

datatype outcome = Return int | Uncaught exn

definition main ::
  "cuda_env \<Rightarrow> (string \<Rightarrow> byte list option) \<Rightarrow> string list
     \<Rightarrow> outcome \<times> cuda_call list \<times> message list" where
  "main env fs argv =
     (let out0 = [Banner]
      in if length argv < 2 then (Return 1, [], out0 @ [Usage])
         else
           let model = CBM_Model_zero;
               (ok, model1, out1, file) = load_cbm_file fs (argv ! 1) model
           in if \<not> ok then (Return 1, [], out0 @ out1)
              else
                case (if 3 \<le> length argv then stoull (argv ! 2) else Inr 7000000000) of
                  Inl e \<Rightarrow> (Uncaught e, [], out0 @ out1)
                | Inr param_count \<Rightarrow>
                    let (ok2, model2, trace2, out2) =
                          materialize_intelligence env model1 [] param_count
                    in if \<not> ok2 then (Return 1, trace2, out0 @ out1 @ out2)
                       else
                         let out3 = [Model_ready (d_weights model2)];
                             (model3, trace3) = destroy_model model2 trace2
                         in (Return 0, trace3, out0 @ out1 @ out2 @ out3))"

section \<open>Sequences of operations on one Model\<close>






subsection \<open>Concrete inputs\<close>

text \<open>
  A runtime with a fixed amount of device memory per request: a request of at most \<open>cap\<close>
  bytes succeeds at a fixed non-null address, a larger one fails with
  \<^verbatim>\<open>cudaErrorMemoryAllocation\<close> (2) and leaves the pointer variable alone.
\<close>

definition env_capacity :: "u64 \<Rightarrow> cuda_env" where
  "env_capacity cap =
     \<lparr>cudaMalloc = (\<lambda>trace p n. if n \<le> cap then (0, 0x7F0000000000) else (2, p)),
      d_seed_uninit = 0\<rparr>"


text \<open>
  A runtime that rejects every request with \<^verbatim>\<open>cudaErrorMemoryAllocation\<close> (2) and has
  written an address into the pointer variable all the same.
\<close>

definition env_scribble :: cuda_env where
  "env_scribble = \<lparr>cudaMalloc = (\<lambda>trace p n. (2, 0xDEAD)), d_seed_uninit = 0\<rparr>"

text \<open>
  A container: magic, version 0x0100, flags and reserved zero, model name "test",
  architecture "demo", the given seed size, graph node count zero, then the payload.
\<close>

definition container :: "u32 \<Rightarrow> byte list \<Rightarrow> byte list" where
  "container n payload =
     [0x43, 0x42, 0x4E, 0x51] @ [0x00, 0x01] @ [0, 0] @ replicate 8 0
       @ [0x74, 0x65, 0x73, 0x74] @ replicate 60 0
       @ [0x64, 0x65, 0x6D, 0x6F] @ replicate 28 0
       @ le_bytes 4 n @ replicate 4 0 @ payload"

definition one_file :: "string \<Rightarrow> byte list \<Rightarrow> string \<Rightarrow> byte list option" where
  "one_file name bytes = (\<lambda>path. if path = name then Some bytes else None)"

section \<open>Theorems about the native core\<close>

lemma transmute_key_value: "transmute_key = 157"
proof -
  have "\<lfloor>PHI * 255\<rfloor> = 157"
    unfolding PHI_def by (simp add: floor_eq_iff)
  then show ?thesis by (simp add: transmute_key_def)
qed

lemma transmute_loop_Some:
  "0 \<le> i \<Longrightarrow> sz \<le> int (length buf) \<Longrightarrow>
   \<exists>r. transmute_loop buf sz i = Some r \<and> length r = length buf \<and>
       (\<forall>j<length buf. r ! j =
          (if i \<le> int j \<and> int j < sz then buf ! j XOR transmute_key else buf ! j))"
proof (induction buf sz i rule: transmute_loop.induct)
  case (1 buf sz i)
  show ?case
  proof (cases "i < sz")
    case False
    then show ?thesis by (auto simp: transmute_loop.simps[of buf sz i])
  next
    case True
    let ?s = "buf[nat i := buf ! nat i XOR transmute_key]"
    from True 1(2,3) have inb: "0 \<le> i \<and> nat i < length buf" by linarith
    from 1(1)[OF True inb] 1(2,3)
    obtain r where r: "transmute_loop ?s sz (i + 1) = Some r" "length r = length buf"
      and nth: "\<forall>j<length buf. r ! j =
          (if i + 1 \<le> int j \<and> int j < sz then ?s ! j XOR transmute_key else ?s ! j)"
      by auto
    have "transmute_loop buf sz i = Some r"
      using True inb r(1) by (simp add: transmute_loop.simps[of buf sz i])
    moreover have "\<forall>j<length buf. r ! j =
          (if i \<le> int j \<and> int j < sz then buf ! j XOR transmute_key else buf ! j)"
    proof (intro allI impI)
      fix j assume j: "j < length buf"
      show "r ! j = (if i \<le> int j \<and> int j < sz then buf ! j XOR transmute_key else buf ! j)"
      proof (cases "j = nat i")
        case True
        with j nth inb \<open>i < sz\<close> show ?thesis by simp
      next
        case False
        with j nth inb
        have "r ! j = (if i + 1 \<le> int j \<and> int j < sz then buf ! j XOR transmute_key
                       else buf ! j)"
          by simp
        moreover from False inb have "i + 1 \<le> int j \<longleftrightarrow> i \<le> int j" by linarith
        ultimately show ?thesis by simp
      qed
    qed
    ultimately show ?thesis using r(2) by blast
  qed
qed

lemma transmute_eq:
  assumes "sz \<le> int (length buf)"
  shows "cbm_holographic_transmute buf sz =
           Some (map (\<lambda>b. b XOR transmute_key) (take (nat sz) buf) @ drop (nat sz) buf)"
proof -
  let ?t = "map (\<lambda>b. b XOR transmute_key) (take (nat sz) buf) @ drop (nat sz) buf"
  from transmute_loop_Some[of 0 sz buf] assms
  obtain r where r: "transmute_loop buf sz 0 = Some r" "length r = length buf"
    and nth: "\<forall>j<length buf. r ! j =
          (if 0 \<le> int j \<and> int j < sz then buf ! j XOR transmute_key else buf ! j)"
    by auto
  have "r = ?t"
  proof (rule nth_equalityI)
    show "length r = length ?t"
      using r(2) by simp
  next
    fix j assume "j < length r"
    with r(2) have j: "j < length buf" by simp
    show "r ! j = ?t ! j"
    proof (cases "int j < sz")
      case True
      then have "j < nat sz" by linarith
      with j True nth show ?thesis
        by (simp add: nth_append)
    next
      case False
      then have "\<not> j < nat sz" by linarith
      with j False nth assms show ?thesis
        by (simp add: nth_append min_def)
    qed
  qed
  with r(1) show ?thesis by (simp add: cbm_holographic_transmute_def)
qed

text \<open>
  Claim C10. \<open>cbm_holographic_transmute\<close>, called on a buffer that holds at least \<open>size\<close>
  bytes, returns; it has XORed each of the first \<open>size\<close> bytes with the one constant byte
  \<open>(unsigned char)(PHI * 255)\<close>, which is 157, and left the bytes from index \<open>size\<close> on as
  they were; and a second call with the same \<open>size\<close> gives back the original buffer. A
  \<open>size\<close> of zero or below changes nothing.
\<close>

theorem transmute_xor_involution:
  assumes "sz \<le> int (length buf)"
  shows "\<exists>r. cbm_holographic_transmute buf sz = Some r
           \<and> r = map (\<lambda>b. b XOR word_of_int \<lfloor>PHI * 255\<rfloor>) (take (nat sz) buf) @ drop (nat sz) buf
           \<and> (word_of_int \<lfloor>PHI * 255\<rfloor> :: byte) = 157
           \<and> cbm_holographic_transmute r sz = Some buf"
proof -
  let ?r = "map (\<lambda>b. b XOR transmute_key) (take (nat sz) buf) @ drop (nat sz) buf"
  have len: "sz \<le> int (length ?r)" using assms by simp
  have twice: "map (\<lambda>b. b XOR transmute_key) (take (nat sz) ?r) @ drop (nat sz) ?r = buf"
  proof (cases "nat sz \<le> length buf")
    case True
    have a: "take (nat sz) ?r = map (\<lambda>b. b XOR transmute_key) (take (nat sz) buf)"
      using True by simp
    have b: "drop (nat sz) ?r = drop (nat sz) buf"
      using True by simp
    have c: "map (\<lambda>b. b XOR transmute_key) (map (\<lambda>b. b XOR transmute_key) (take (nat sz) buf))
               = take (nat sz) buf"
      by (simp add: comp_def xor.assoc)
    show ?thesis unfolding a b c by simp
  next
    case False
    with assms show ?thesis by linarith
  qed
  have "cbm_holographic_transmute buf sz = Some ?r"
    by (rule transmute_eq [OF assms])
  moreover have "cbm_holographic_transmute ?r sz = Some buf"
    using transmute_eq [OF len] twice by simp
  moreover have "(word_of_int \<lfloor>PHI * 255\<rfloor> :: byte) = 157"
    using transmute_key_value by (simp add: transmute_key_def)
  ultimately show ?thesis by (simp add: transmute_key_def)
qed

theorem transmute_xor_involution_witness:
  "(2::int) \<le> int (length [1, 2, 3 :: byte])
     \<and> cbm_holographic_transmute [1, 2, 3] 2 = Some [156, 159, 3]
     \<and> cbm_holographic_transmute [156, 159, 3] 2 = Some [1, 2, 3]"
proof -
  have h: "(2::int) \<le> int (length [1, 2, 3 :: byte])" by simp
  from transmute_xor_involution [OF h] show ?thesis by auto
qed

section \<open>Theorems about the loader\<close>

subsection \<open>Launch geometry\<close>

lemma ceil_div_256: "\<lceil>real n / 256\<rceil> = int ((n + 255) div 256)"
proof -
  define q where "q = (n + 255) div 256"
  have eq: "q * 256 + (n + 255) mod 256 = n + 255"
    unfolding q_def by (rule div_mult_mod_eq)
  have lt: "(n + 255) mod 256 < 256"
    by (rule mod_less_divisor) simp
  have 1: "256 * q \<le> n + 255" and 2: "n \<le> 256 * q"
    using eq lt by linarith+
  have r1: "256 * real q \<le> real n + 255"
    using 1 of_nat_mono[of "256 * q" "n + 255", where 'a = real] by simp
  have r2: "real n \<le> 256 * real q"
    using 2 of_nat_mono[of n "256 * q", where 'a = real] by simp
  have "\<lceil>real n / 256\<rceil> = int q"
  proof (rule ceiling_unique)
    show "real_of_int (int q) - 1 < real n / 256" using r1 by simp
    show "real n / 256 \<le> real_of_int (int q)" using r2 by simp
  qed
  then show ?thesis by (simp add: q_def)
qed

lemma launch_blocks_small:
  assumes "unat pc \<le> 549755813632"
  shows "launch_blocks pc = int ((unat pc + 255) div 256)"
proof -
  let ?q = "(pc + 255) div 256"
  have a2: "word_of_int launch_threads = (256 :: u64)"
    by (simp add: launch_threads_def)
  have a: "pc + 256 - 1 = pc + 255"
    by simp
  have b: "unat (pc + 255) = unat pc + 255"
    using assms by (simp add: unat_word_ariths)
  have c: "unat ?q = (unat pc + 255) div 256"
    by (simp add: unat_div b)
  have d: "(unat pc + 255) div 256 < 2 ^ 31"
    using assms by simp
  have e: "uint ?q = int ((unat pc + 255) div 256)"
    using c by (metis uint_nat)
  have f: "uint ?q < 2 ^ 31" "- (2 ^ 31) \<le> uint ?q"
    using d e by simp_all
  have "launch_blocks pc = sint (ucast ?q :: 32 word)"
    unfolding launch_blocks_def a2 a ..
  also have "\<dots> = signed_take_bit 31 (uint ?q)"
    by (simp add: signed_ucast_eq)
  also have "\<dots> = uint ?q"
    using f by (intro signed_take_bit_int_eq_self) simp_all
  finally show ?thesis
    using e by simp
qed

text \<open>
  Claim C6, as amended. For every \<open>param_count\<close> up to 549755813632 (that is
  \<open>(2\<^sup>3\<^sup>1 - 1) * 256\<close>), a call of \<open>materialize_intelligence\<close> that returns \<open>true\<close> has
  printed a one-dimensional launch geometry with 256 threads per block and
  \<open>ceil(param_count / 256)\<close> blocks; for \<open>param_count = 1000\<close> that is 4 blocks.
\<close>

theorem launch_geometry:
  assumes "unat param_count \<le> 549755813632"
    and "materialize_intelligence env model trace param_count = (True, model', trace', out)"
  shows "launch_threads = 256
       \<and> launch_blocks param_count = \<lceil>real (unat param_count) / 256\<rceil>
       \<and> out = [Unfolding_line, Target_Parameters param_count,
                 Launching_Lambda_Kernel \<lceil>real (unat param_count) / 256\<rceil> 256,
                 Materialization_Complete]"
proof -
  have blocks: "launch_blocks param_count = \<lceil>real (unat param_count) / 256\<rceil>"
    using launch_blocks_small [OF assms(1)] ceil_div_256 [of "unat param_count"]
    by (simp only:)
  have "out = [Unfolding_line, Target_Parameters param_count,
               Launching_Lambda_Kernel (launch_blocks param_count) launch_threads,
               Materialization_Complete]"
    using assms(2)
    by (auto simp: materialize_intelligence_def Let_def split: prod.splits if_splits)
  with blocks show ?thesis by (simp add: launch_threads_def)
qed

text \<open>The geometry for \<open>param_count = 1000\<close>: 4 blocks of 256 threads.\<close>

theorem launch_geometry_witness:
  "unat (1000 :: u64) \<le> 549755813632
     \<and> launch_blocks 1000 = 4
     \<and> (\<exists>model' trace'.
           materialize_intelligence (env_capacity 4096) CBM_Model_zero [] 1000
             = (True, model', trace',
                [Unfolding_line, Target_Parameters 1000, Launching_Lambda_Kernel 4 256,
                 Materialization_Complete]))"
proof -
  have h: "unat (1000 :: u64) \<le> 549755813632" by simp
  have ok: "fst (materialize_intelligence (env_capacity 4096) CBM_Model_zero [] 1000)"
    by (simp add: materialize_intelligence_def env_capacity_def cudaSuccess_def Let_def)
  obtain b model' trace' out
    where eq: "materialize_intelligence (env_capacity 4096) CBM_Model_zero [] 1000
                 = (b, model', trace', out)"
    by (rule prod_cases4)
  with ok have eq': "materialize_intelligence (env_capacity 4096) CBM_Model_zero [] 1000
                 = (True, model', trace', out)" by simp
  from launch_geometry [OF h eq'] eq' show ?thesis by simp
qed

text \<open>
  Claim C6 as stated, for every \<open>param_count\<close>, fails: at \<open>param_count = 2\<^sup>3\<^sup>9\<close> the quotient
  \<open>2\<^sup>3\<^sup>1\<close> does not fit the \<open>int\<close> that holds the block count, and the code prints
  \<open>-2147483648\<close> blocks.
\<close>

theorem launch_blocks_counterexample:
  "launch_blocks 549755813888 = - 2147483648
     \<and> \<lceil>real (unat (549755813888 :: u64)) / 256\<rceil> = 2147483648
     \<and> launch_blocks 549755813888 \<noteq> \<lceil>real (unat (549755813888 :: u64)) / 256\<rceil>
     \<and> snd (snd (snd (materialize_intelligence (env_capacity (- 1)) CBM_Model_zero []
                         549755813888)))
         = [Unfolding_line, Target_Parameters 549755813888,
            Launching_Lambda_Kernel (- 2147483648) 256, Materialization_Complete]"
  by (simp add: launch_blocks_def launch_threads_def materialize_intelligence_def
        env_capacity_def cudaSuccess_def Let_def)

subsection \<open>Teardown\<close>

text \<open>
  Claim C7. A second \<open>destroy_model\<close> right after a first changes neither the record nor
  the trace of runtime calls; after \<open>destroy_model\<close> the handle is null and the seed is
  empty; one or two calls add exactly one \<^verbatim>\<open>cudaFree\<close> of the handle to the trace when the
  handle was non-null and none when it was null; and on a record whose handle is already
  null the call only clears the seed and makes no runtime call.
\<close>

theorem destroy_model_idempotent:
  "destroy_model (fst (destroy_model model trace)) (snd (destroy_model model trace))
       = destroy_model model trace
     \<and> d_weights (fst (destroy_model model trace)) = 0
     \<and> seed (fst (destroy_model model trace)) = []
     \<and> snd (destroy_model model trace)
         = trace @ (if d_weights model \<noteq> 0 then [CudaFree (d_weights model)] else [])
     \<and> (d_weights model = 0 \<longrightarrow> destroy_model model trace = (model\<lparr>seed := []\<rparr>, trace))"
  by (simp add: destroy_model_def)

text \<open>Destroying the zero-initialised record, and destroying twice a record with a handle.\<close>

theorem destroy_model_idempotent_witness:
  "d_weights CBM_Model_zero = 0
     \<and> destroy_model CBM_Model_zero [] = (CBM_Model_zero\<lparr>seed := []\<rparr>, [])
     \<and> snd (destroy_model (CBM_Model_zero\<lparr>d_weights := 0x7F0000000000\<rparr>) [])
          = [CudaFree 0x7F0000000000]
     \<and> destroy_model (fst (destroy_model (CBM_Model_zero\<lparr>d_weights := 0x7F0000000000\<rparr>) []))
          (snd (destroy_model (CBM_Model_zero\<lparr>d_weights := 0x7F0000000000\<rparr>) []))
          = (CBM_Model_zero, [CudaFree 0x7F0000000000])"
  using destroy_model_idempotent [of CBM_Model_zero "[]"]
    destroy_model_idempotent [of "CBM_Model_zero\<lparr>d_weights := 0x7F0000000000\<rparr>" "[]"]
  by (simp add: CBM_Model_zero_def destroy_model_def)

subsection \<open>Allocation failure\<close>

text \<open>
  Claim C3, as amended. When \<^verbatim>\<open>cudaMalloc\<close> rejects the allocation of the output buffer,
  \<open>materialize_intelligence\<close> returns \<open>false\<close> after that one runtime call, with the message
  of the failure. The function assigns nothing to the device handle itself: the handle
  holds whatever \<^verbatim>\<open>cudaMalloc\<close> left in the pointer variable, so when the runtime leaves
  the variable untouched on failure the record keeps the handle it had before the call
  (none, for a record that had none). Every other member is unchanged except
  \<open>weight_count\<close>, which has already been set to \<open>param_count\<close>.
\<close>

theorem materialize_allocation_failure:
  assumes "cudaMalloc env trace (d_weights model) (param_count * 4) = (err, p)"
    and "err \<noteq> cudaSuccess"
  shows "materialize_intelligence env model trace param_count
           = (False,
              model\<lparr>weight_count := param_count, d_weights := p\<rparr>,
              trace @ [CudaMalloc (param_count * 4) err p],
              [Unfolding_line, Target_Parameters param_count, VRAM_Allocation_Failed err])
       \<and> (p = d_weights model \<longrightarrow>
            fst (snd (materialize_intelligence env model trace param_count))
              = model\<lparr>weight_count := param_count\<rparr>)"
  using assms by (simp add: materialize_intelligence_def Let_def)

text \<open>
  The zero-initialised record and 16 parameters, with a runtime without memory that
  leaves the pointer variable alone, and with one that writes into it.
\<close>

theorem materialize_allocation_failure_witness:
  "cudaMalloc (env_capacity 0) [] (d_weights CBM_Model_zero) (16 * 4) = (2, 0)
     \<and> (2 :: cudaError_t) \<noteq> cudaSuccess
     \<and> materialize_intelligence (env_capacity 0) CBM_Model_zero [] 16
         = (False, CBM_Model_zero\<lparr>weight_count := 16\<rparr>, [CudaMalloc 64 2 0],
            [Unfolding_line, Target_Parameters 16, VRAM_Allocation_Failed 2])
     \<and> cudaMalloc env_scribble [] (d_weights CBM_Model_zero) (16 * 4) = (2, 0xDEAD)
     \<and> materialize_intelligence env_scribble CBM_Model_zero [] 16
         = (False, CBM_Model_zero\<lparr>weight_count := 16, d_weights := 0xDEAD\<rparr>,
            [CudaMalloc 64 2 0xDEAD],
            [Unfolding_line, Target_Parameters 16, VRAM_Allocation_Failed 2])"
proof -
  have a: "cudaMalloc (env_capacity 0) [] (d_weights CBM_Model_zero) (16 * 4) = (2, 0)"
    by (simp add: env_capacity_def CBM_Model_zero_def)
  have b: "cudaMalloc env_scribble [] (d_weights CBM_Model_zero) (16 * 4) = (2, 0xDEAD)"
    by (simp add: env_scribble_def)
  have e: "(2 :: cudaError_t) \<noteq> cudaSuccess" by (simp add: cudaSuccess_def)
  have z: "d_weights CBM_Model_zero = 0" by (simp add: CBM_Model_zero_def)
  from materialize_allocation_failure
         [where env = "env_capacity 0" and trace = "[]" and model = CBM_Model_zero
            and param_count = 16, OF a e]
       materialize_allocation_failure
         [where env = env_scribble and trace = "[]" and model = CBM_Model_zero
            and param_count = 16, OF b e]
       a b e z
  show ?thesis by simp
qed

text \<open>
  Claim C3 as stated fails in its last part: after the failed call the record's
  \<open>weight_count\<close> is 16, not 0, although nothing is in device memory.
\<close>

theorem materialize_failure_counterexample:
  "fst (materialize_intelligence (env_capacity 0) CBM_Model_zero [] 16) = False
     \<and> d_weights (fst (snd (materialize_intelligence (env_capacity 0) CBM_Model_zero [] 16))) = 0
     \<and> weight_count (fst (snd (materialize_intelligence (env_capacity 0) CBM_Model_zero [] 16))) = 16
     \<and> weight_count (fst (snd (materialize_intelligence (env_capacity 0) CBM_Model_zero [] 16))) \<noteq> 0"
  by (simp add: materialize_intelligence_def env_capacity_def cudaSuccess_def Let_def
        CBM_Model_zero_def)

subsection \<open>What load\_cbm\_file leaves alone, and the length of the seed\<close>

lemma length_vector_resize: "length (vector_resize v n) = n"
  by (simp add: vector_resize_def)

lemma length_ifstream_read: "length (fst (ifstream_read file n)) \<le> n"
  by (simp add: ifstream_read_def Let_def)

lemma length_store_bytes:
  "length got \<le> length dst \<Longrightarrow> length (store_bytes got dst) = length dst"
  by (simp add: store_bytes_def)

lemma load_cbm_file_unchanged:
  "d_weights (fst (snd (load_cbm_file fs path model))) = d_weights model
   \<and> weight_count (fst (snd (load_cbm_file fs path model))) = weight_count model"
  by (simp add: load_cbm_file_def Let_def split: option.splits prod.splits)

lemma load_cbm_file_seed_length:
  assumes "load_cbm_file fs path model = (True, model', out, file)"
  shows "length (seed model') = unat (seed_size (metadata model'))"
proof -
  from assms obtain bytes where b: "fs path = Some bytes"
    by (auto simp: load_cbm_file_def split: option.splits)
  obtain got1 file1 where r1: "ifstream_read \<lparr>content = bytes, gpos = 0, failbit = False\<rparr>
                                  sizeof_CBMHeader = (got1, file1)"
    by (rule prod.exhaust)
  obtain got2 file2 where r2: "ifstream_read file1 sizeof_CBMMetadata = (got2, file2)"
    by (rule prod.exhaust)
  define model2 where "model2 =
    model\<lparr>header := CBMHeader_of_bytes (store_bytes got1 (CBMHeader_bytes (header model))),
          metadata := CBMMetadata_of_bytes (store_bytes got2 (CBMMetadata_bytes (metadata model)))\<rparr>"
  define n where "n = unat (seed_size (metadata model2))"
  obtain got3 file3 where r3: "ifstream_read file2 n = (got3, file3)"
    by (rule prod.exhaust)
  have g3: "length got3 \<le> n"
    using length_ifstream_read [of file2 n] r3 by simp
  from assms b r1 r2 r3
  have m': "model' = model2\<lparr>seed := store_bytes got3 (vector_resize (seed model2) n)\<rparr>"
    by (simp add: load_cbm_file_def Let_def model2_def n_def split: if_splits)
  show ?thesis
    using g3 by (simp add: m' length_store_bytes length_vector_resize n_def)
qed

subsection \<open>The device handle over the life of a Model\<close>






subsection \<open>The magic check\<close>

lemma strncmp_Cons_eq_0:
  "(strncmp (a # s1) (b # s2) (Suc n) = Some 0)
     = (a = b \<and> (a = 0 \<or> strncmp s1 s2 n = Some 0))"
  by (auto simp: word_uint_eq_iff)

lemma strncmp_magic:
  assumes "length a = 4"
  shows "(strncmp a CBM_MAGIC 4 = Some 0) = (a = take 4 CBM_MAGIC)"
proof -
  from assms obtain a0 a1 a2 a3 where a: "a = [a0, a1, a2, a3]"
    by (auto simp: length_Suc_conv eval_nat_numeral)
  have n: "(4::nat) = Suc (Suc (Suc (Suc 0)))" by simp
  have "(strncmp [a0, a1, a2, a3] [0x43, 0x42, 0x4E, 0x51, 0] (Suc (Suc (Suc (Suc 0)))) = Some 0)
          = (a0 = 0x43 \<and> a1 = 0x42 \<and> a2 = 0x4E \<and> a3 = 0x51)"
    by (simp only: strncmp_Cons_eq_0 strncmp.simps(1)) auto
  then show ?thesis
    unfolding a CBM_MAGIC_def n by simp
qed

lemma header_read_magic:
  assumes "4 \<le> length bytes"
  shows "magic (CBMHeader_of_bytes (store_bytes (take 16 bytes) old)) = take 4 bytes"
  using assms by (simp add: CBMHeader_of_bytes_def store_bytes_def min_def)

lemma header_read_version:
  assumes "6 \<le> length bytes"
  shows "version (CBMHeader_of_bytes (store_bytes (take 16 bytes) old))
           = le_word (take 2 (drop 4 bytes))"
  using assms by (simp add: CBMHeader_of_bytes_def store_bytes_def min_def drop_take)

lemma load_cbm_file_bad_magic:
  assumes "fs path = Some bytes" and "4 \<le> length bytes"
    and "take 4 bytes \<noteq> take 4 CBM_MAGIC"
  shows "load_cbm_file fs path model =
           (False,
            model\<lparr>header := CBMHeader_of_bytes
                               (store_bytes (take 16 bytes) (CBMHeader_bytes (header model)))\<rparr>,
            [Invalid_CBM_file],
            Some \<lparr>content = bytes, gpos = min (length bytes) 16,
                  failbit = (length bytes < 16)\<rparr>)"
proof -
  let ?hdr = "CBMHeader_of_bytes (store_bytes (take 16 bytes) (CBMHeader_bytes (header model)))"
  have m: "magic ?hdr = take 4 bytes"
    by (rule header_read_magic [OF assms(2)])
  have "length (magic ?hdr) = 4" using assms(2) by (simp add: m)
  from strncmp_magic [OF this] assms(3)
  have s: "strncmp (magic ?hdr) CBM_MAGIC 4 \<noteq> Some 0" by (simp add: m)
  show ?thesis
    using assms(1) s
    by (auto simp: load_cbm_file_def ifstream_read_def sizeof_CBMHeader_def Let_def)
qed

lemma CBMHeader_bytes_zero: "CBMHeader_bytes (header CBM_Model_zero) = replicate 16 0"
proof -
  have "CBMHeader_bytes (header CBM_Model_zero)
          = replicate 4 0 @ [0, 0, 0, 0, 0, 0, 0, 0, 0, 0, 0, 0]"
    by (simp add: CBMHeader_bytes_def CBM_Model_zero_def char_array_def le_bytes_def upt_rec)
  also have "\<dots> = replicate 16 0"
    by (simp add: numeral_eq_Suc)
  finally show ?thesis .
qed

lemma short_header_read_magic:
  assumes "length bytes < 4"
  shows "magic (CBMHeader_of_bytes (store_bytes (take 16 bytes) (replicate 16 0)))
           = bytes @ replicate (4 - length bytes) 0"
  using assms by (simp add: CBMHeader_of_bytes_def store_bytes_def)

lemma load_cbm_file_short_zero:
  assumes "fs path = Some bytes" and "length bytes < 4"
    and "header model = header CBM_Model_zero"
  shows "load_cbm_file fs path model =
           (False,
            model\<lparr>header := CBMHeader_of_bytes
                               (store_bytes (take 16 bytes) (CBMHeader_bytes (header model)))\<rparr>,
            [Invalid_CBM_file],
            Some \<lparr>content = bytes, gpos = min (length bytes) 16,
                  failbit = (length bytes < 16)\<rparr>)"
proof -
  let ?hdr = "CBMHeader_of_bytes (store_bytes (take 16 bytes) (CBMHeader_bytes (header model)))"
  have m: "magic ?hdr = bytes @ replicate (4 - length bytes) 0"
    unfolding assms(3) CBMHeader_bytes_zero by (rule short_header_read_magic [OF assms(2)])
  have len: "length (magic ?hdr) = 4" unfolding m using assms(2) by simp
  have "magic ?hdr ! 3 = 0"
    unfolding m using assms(2) by (simp add: nth_append)
  moreover have "take 4 CBM_MAGIC ! 3 = 0x51" by (simp add: CBM_MAGIC_def)
  ultimately have "magic ?hdr \<noteq> take 4 CBM_MAGIC" by auto
  with strncmp_magic [OF len]
  have s: "strncmp (magic ?hdr) CBM_MAGIC 4 \<noteq> Some 0" by simp
  show ?thesis
    using assms(1) s
    by (auto simp: load_cbm_file_def ifstream_read_def sizeof_CBMHeader_def Let_def)
qed

lemma load_cbm_file_mismatch:
  assumes "fs path = Some bytes" and "take 4 bytes \<noteq> take 4 CBM_MAGIC"
    and "4 \<le> length bytes \<or> header model = header CBM_Model_zero"
  shows "load_cbm_file fs path model =
           (False,
            model\<lparr>header := CBMHeader_of_bytes
                               (store_bytes (take 16 bytes) (CBMHeader_bytes (header model)))\<rparr>,
            [Invalid_CBM_file],
            Some \<lparr>content = bytes, gpos = min (length bytes) 16,
                  failbit = (length bytes < 16)\<rparr>)"
proof (cases "4 \<le> length bytes")
  case True
  from load_cbm_file_bad_magic [where fs = fs and path = path, OF assms(1) True assms(2)]
  show ?thesis .
next
  case False
  with assms(3) have z: "header model = header CBM_Model_zero" and l: "length bytes < 4"
    by simp_all
  from load_cbm_file_short_zero [where fs = fs and path = path, OF assms(1) l z]
  show ?thesis .
qed

lemma load_cbm_file_good_magic:
  assumes "fs path = Some bytes" and "4 \<le> length bytes"
    and "take 4 bytes = take 4 CBM_MAGIC"
  shows "\<exists>model' out file.
           load_cbm_file fs path model =
             (True, model',
              CBM_File_Version (drop_bit 8 (uint (version (header model'))))
                               (uint (version (header model')) AND 0xFF) # out,
              file)
           \<and> header model' = CBMHeader_of_bytes
                                 (store_bytes (take 16 bytes) (CBMHeader_bytes (header model)))"
proof -
  let ?hdr = "CBMHeader_of_bytes (store_bytes (take 16 bytes) (CBMHeader_bytes (header model)))"
  have m: "magic ?hdr = take 4 bytes"
    by (rule header_read_magic [OF assms(2)])
  have "length (magic ?hdr) = 4" using assms(2) by (simp add: m)
  from strncmp_magic [OF this] assms(3)
  have s: "strncmp (magic ?hdr) CBM_MAGIC 4 = Some 0" by (simp add: m)
  show ?thesis
    using assms(1) s
    by (simp add: load_cbm_file_def ifstream_read_def sizeof_CBMHeader_def Let_def
          split: prod.splits)
qed

lemma full_header_read:
  assumes "16 \<le> length bytes"
  shows "store_bytes (take 16 bytes) (CBMHeader_bytes h) = take 16 bytes"
proof -
  have "length (CBMHeader_bytes h) = 16"
    by (simp add: CBMHeader_bytes_def char_array_def le_bytes_def)
  with assms show ?thesis by (simp add: store_bytes_def)
qed

text \<open>
  Claim C4, as amended. For every file that can be opened and whose first 4 bytes differ
  from \<^verbatim>\<open>"CBNQ"\<close>, \<open>load_cbm_file\<close> returns \<open>false\<close> with the bad-magic message as its
  only output, and the stream has not moved past the 16 bytes of the header block. The
  metadata, the seed, the device handle and the weight count of the caller's record are
  untouched, but its header is not: the bytes read from the rejected file have
  overwritten it, all 16 of them when the file holds that many. A file of fewer than 4
  bytes is covered when the header of the record is still zero, as it is in \<open>main\<close>.
\<close>

theorem bad_magic_rejected:
  assumes "fs path = Some bytes" and "take 4 bytes \<noteq> take 4 CBM_MAGIC"
    and "4 \<le> length bytes \<or> header model = header CBM_Model_zero"
  shows "\<exists>model' file.
           load_cbm_file fs path model = (False, model', [Invalid_CBM_file], Some file)
           \<and> gpos file \<le> sizeof_CBMHeader
           \<and> metadata model' = metadata model
           \<and> seed model' = seed model
           \<and> d_weights model' = d_weights model
           \<and> weight_count model' = weight_count model
           \<and> header model' = CBMHeader_of_bytes
                                 (store_bytes (take 16 bytes) (CBMHeader_bytes (header model)))
           \<and> (4 \<le> length bytes \<longrightarrow> magic (header model') = take 4 bytes)
           \<and> (16 \<le> length bytes \<longrightarrow> header model' = CBMHeader_of_bytes (take 16 bytes))"
proof -
  let ?hdr = "CBMHeader_of_bytes (store_bytes (take 16 bytes) (CBMHeader_bytes (header model)))"
  have m: "4 \<le> length bytes \<longrightarrow> magic ?hdr = take 4 bytes"
    using header_read_magic by blast
  have f: "16 \<le> length bytes \<longrightarrow> ?hdr = CBMHeader_of_bytes (take 16 bytes)"
    using full_header_read by simp
  from load_cbm_file_mismatch [where fs = fs and path = path, OF assms] m f
  show ?thesis by (simp add: sizeof_CBMHeader_def)
qed

text \<open>A 204-byte file that starts with \<^verbatim>\<open>"CBNR"\<close>, and a file of the 3 bytes \<^verbatim>\<open>"CBN"\<close>.\<close>

theorem bad_magic_rejected_witness:
  "one_file ''m.cbm'' ([0x43, 0x42, 0x4E, 0x52] @ replicate 200 7) ''m.cbm''
       = Some ([0x43, 0x42, 0x4E, 0x52] @ replicate 200 7)
     \<and> 4 \<le> length ([0x43, 0x42, 0x4E, 0x52] @ replicate 200 (7 :: byte))
     \<and> take 4 ([0x43, 0x42, 0x4E, 0x52] @ replicate 200 7) \<noteq> take 4 CBM_MAGIC
     \<and> (\<exists>model' file.
           load_cbm_file (one_file ''m.cbm'' ([0x43, 0x42, 0x4E, 0x52] @ replicate 200 7))
               ''m.cbm'' CBM_Model_zero
             = (False, model', [Invalid_CBM_file], Some file)
           \<and> gpos file \<le> 16
           \<and> metadata model' = metadata CBM_Model_zero
           \<and> seed model' = []
           \<and> d_weights model' = 0
           \<and> weight_count model' = 0)
     \<and> take 4 [0x43, 0x42, 0x4E] \<noteq> take 4 CBM_MAGIC
     \<and> (\<exists>model' file.
           load_cbm_file (one_file ''m.cbm'' [0x43, 0x42, 0x4E]) ''m.cbm'' CBM_Model_zero
             = (False, model', [Invalid_CBM_file], Some file)
           \<and> gpos file \<le> 16)"
proof -
  let ?bs = "[0x43, 0x42, 0x4E, 0x52] @ replicate 200 (7 :: byte)"
  let ?sh = "[0x43, 0x42, 0x4E :: byte]"
  have a: "one_file ''m.cbm'' ?bs ''m.cbm'' = Some ?bs" by (simp add: one_file_def)
  have b: "4 \<le> length ?bs \<or> header CBM_Model_zero = header CBM_Model_zero" by simp
  have c: "take 4 ?bs \<noteq> take 4 CBM_MAGIC" by (simp add: CBM_MAGIC_def)
  have a': "one_file ''m.cbm'' ?sh ''m.cbm'' = Some ?sh" by (simp add: one_file_def)
  have b': "4 \<le> length ?sh \<or> header CBM_Model_zero = header CBM_Model_zero" by simp
  have c': "take 4 ?sh \<noteq> take 4 CBM_MAGIC" by (simp add: CBM_MAGIC_def)
  have b4: "4 \<le> length ?bs" by simp
  have z: "seed CBM_Model_zero = []" "d_weights CBM_Model_zero = 0"
    "weight_count CBM_Model_zero = 0"
    by (simp_all add: CBM_Model_zero_def)
  from bad_magic_rejected [where fs = "one_file ''m.cbm'' ?bs" and path = "''m.cbm''",
         OF a c b]
  obtain m1 f1
    where e1: "load_cbm_file (one_file ''m.cbm'' ?bs) ''m.cbm'' CBM_Model_zero
                 = (False, m1, [Invalid_CBM_file], Some f1)"
      and g1: "gpos f1 \<le> sizeof_CBMHeader"
      and r1: "metadata m1 = metadata CBM_Model_zero" "seed m1 = seed CBM_Model_zero"
        "d_weights m1 = d_weights CBM_Model_zero"
        "weight_count m1 = weight_count CBM_Model_zero"
    by blast
  from bad_magic_rejected [where fs = "one_file ''m.cbm'' ?sh" and path = "''m.cbm''",
         OF a' c' b']
  obtain m2 f2
    where e2: "load_cbm_file (one_file ''m.cbm'' ?sh) ''m.cbm'' CBM_Model_zero
                 = (False, m2, [Invalid_CBM_file], Some f2)"
      and g2: "gpos f2 \<le> sizeof_CBMHeader"
    by blast
  have p1: "\<exists>model' file.
              load_cbm_file (one_file ''m.cbm'' ?bs) ''m.cbm'' CBM_Model_zero
                = (False, model', [Invalid_CBM_file], Some file)
              \<and> gpos file \<le> 16
              \<and> metadata model' = metadata CBM_Model_zero
              \<and> seed model' = []
              \<and> d_weights model' = 0
              \<and> weight_count model' = 0"
    using e1 g1 r1 z by (simp add: sizeof_CBMHeader_def)
  have p2: "\<exists>model' file.
              load_cbm_file (one_file ''m.cbm'' ?sh) ''m.cbm'' CBM_Model_zero
                = (False, model', [Invalid_CBM_file], Some file)
              \<and> gpos file \<le> 16"
    using e2 g2 by (simp add: sizeof_CBMHeader_def)
  from a b4 c c' p1 p2 show ?thesis by blast
qed

text \<open>
  Claim C4 as stated fails in its last part: the call on a 16-byte file whose magic ends
  in \<^verbatim>\<open>R\<close> returns \<open>false\<close> and leaves the caller's record with the header of that file,
  no longer the zero-initialised record it was.
\<close>

theorem bad_magic_header_counterexample:
  "fst (load_cbm_file
          (one_file ''m.cbm'' [0x43, 0x42, 0x4E, 0x52, 0x00, 0x01, 0, 0, 0, 0, 0, 0, 0, 0, 0, 0])
          ''m.cbm'' CBM_Model_zero) = False
     \<and> header (fst (snd
          (load_cbm_file
             (one_file ''m.cbm'' [0x43, 0x42, 0x4E, 0x52, 0x00, 0x01, 0, 0, 0, 0, 0, 0, 0, 0, 0, 0])
             ''m.cbm'' CBM_Model_zero)))
         = \<lparr>magic = [0x43, 0x42, 0x4E, 0x52], version = 0x0100, flags = 0, reserved = 0\<rparr>
     \<and> fst (snd
          (load_cbm_file
             (one_file ''m.cbm'' [0x43, 0x42, 0x4E, 0x52, 0x00, 0x01, 0, 0, 0, 0, 0, 0, 0, 0, 0, 0])
             ''m.cbm'' CBM_Model_zero))
         \<noteq> CBM_Model_zero"
proof -
  let ?bs = "[0x43, 0x42, 0x4E, 0x52, 0x00, 0x01, 0, 0, 0, 0, 0, 0, 0, 0, 0, 0 :: byte]"
  have a: "one_file ''m.cbm'' ?bs ''m.cbm'' = Some ?bs" by (simp add: one_file_def)
  have b: "4 \<le> length ?bs \<or> header CBM_Model_zero = header CBM_Model_zero" by simp
  have c: "take 4 ?bs \<noteq> take 4 CBM_MAGIC" by (simp add: CBM_MAGIC_def)
  have l: "16 \<le> length ?bs" by simp
  have h: "CBMHeader_of_bytes (take 16 ?bs)
             = \<lparr>magic = [0x43, 0x42, 0x4E, 0x52], version = 0x0100, flags = 0, reserved = 0\<rparr>"
    by (simp add: CBMHeader_of_bytes_def)
  have z: "magic (header CBM_Model_zero) ! 0 = 0"
    by (simp add: CBM_Model_zero_def)
  from load_cbm_file_mismatch [where fs = "one_file ''m.cbm'' ?bs" and path = "''m.cbm''",
         OF a c b]
  have e: "load_cbm_file (one_file ''m.cbm'' ?bs) ''m.cbm'' CBM_Model_zero =
             (False,
              CBM_Model_zero\<lparr>header := CBMHeader_of_bytes (take 16 ?bs)\<rparr>,
              [Invalid_CBM_file],
              Some \<lparr>content = ?bs, gpos = min (length ?bs) 16, failbit = (length ?bs < 16)\<rparr>)"
    unfolding full_header_read [OF l] .
  have ne: "CBM_Model_zero\<lparr>header := CBMHeader_of_bytes (take 16 ?bs)\<rparr> \<noteq> CBM_Model_zero"
  proof
    assume "CBM_Model_zero\<lparr>header := CBMHeader_of_bytes (take 16 ?bs)\<rparr> = CBM_Model_zero"
    then have "header (CBM_Model_zero\<lparr>header := CBMHeader_of_bytes (take 16 ?bs)\<rparr>)
                 = header CBM_Model_zero" by (rule arg_cong)
    then have "magic (CBMHeader_of_bytes (take 16 ?bs)) = magic (header CBM_Model_zero)"
      by simp
    then have "magic (CBMHeader_of_bytes (take 16 ?bs)) ! 0 = magic (header CBM_Model_zero) ! 0"
      by (rule arg_cong)
    with z show False unfolding h by simp
  qed
  show ?thesis
    unfolding e using h ne by simp
qed

subsection \<open>Files that hold both fixed-size blocks\<close>

lemma metadata_read_seed_size:
  assumes "120 \<le> length bytes"
  shows "seed_size (CBMMetadata_of_bytes (store_bytes (take 104 (drop 16 bytes)) old))
           = le_word (take 4 (drop 112 bytes))"
  using assms by (simp add: CBMMetadata_of_bytes_def store_bytes_def min_def drop_take)

lemma load_cbm_file_full_blocks:
  assumes "fs path = Some bytes" and "120 \<le> length bytes"
    and "take 4 bytes = take 4 CBM_MAGIC"
  shows "\<exists>model' out file.
           load_cbm_file fs path model = (True, model', out, file)
           \<and> seed_size (metadata model') = le_word (take 4 (drop 112 bytes))
           \<and> seed model' =
               store_bytes (take (unat (seed_size (metadata model'))) (drop 120 bytes))
                 (vector_resize (seed model) (unat (seed_size (metadata model'))))"
proof -
  let ?hdr = "CBMHeader_of_bytes (store_bytes (take 16 bytes) (CBMHeader_bytes (header model)))"
  let ?md = "CBMMetadata_of_bytes (store_bytes (take 104 (drop 16 bytes))
               (CBMMetadata_bytes (metadata model)))"
  have 4: "4 \<le> length bytes" using assms(2) by simp
  have m: "magic ?hdr = take 4 bytes"
    by (rule header_read_magic [OF 4])
  have "length (magic ?hdr) = 4" using 4 by (simp add: m)
  from strncmp_magic [OF this] assms(3)
  have s: "strncmp (magic ?hdr) CBM_MAGIC 4 = Some 0" by (simp add: m)
  have sz: "seed_size ?md = le_word (take 4 (drop 112 bytes))"
    by (rule metadata_read_seed_size [OF assms(2)])
  have r1: "ifstream_read \<lparr>content = bytes, gpos = 0, failbit = False\<rparr> sizeof_CBMHeader
              = (take 16 bytes, \<lparr>content = bytes, gpos = 16, failbit = False\<rparr>)"
    using assms(2) by (simp add: ifstream_read_def sizeof_CBMHeader_def Let_def)
  have r2: "ifstream_read \<lparr>content = bytes, gpos = 16, failbit = False\<rparr> sizeof_CBMMetadata
              = (take 104 (drop 16 bytes), \<lparr>content = bytes, gpos = 120, failbit = False\<rparr>)"
    using assms(2) by (simp add: ifstream_read_def sizeof_CBMMetadata_def Let_def)
  have r3: "ifstream_read \<lparr>content = bytes, gpos = 120, failbit = False\<rparr> n
              = (take n (drop 120 bytes),
                 \<lparr>content = bytes, gpos = 120 + length (take n (drop 120 bytes)),
                  failbit = (length (take n (drop 120 bytes)) < n)\<rparr>)" for n
    by (simp add: ifstream_read_def Let_def)
  show ?thesis
    using assms(1) s sz
    by (simp add: load_cbm_file_def r1 r2 r3 Let_def)
qed

subsection \<open>A successful parse\<close>

text \<open>
  Claim C5. Whenever \<open>load_cbm_file\<close>, called as \<open>main\<close> calls it on the zero-initialised
  record, returns \<open>true\<close>, the seed buffer of the record holds exactly
  \<open>metadata.seed_size\<close> bytes, the device handle is null and \<open>weight_count\<close> is 0.
\<close>

theorem successful_parse_model:
  assumes "load_cbm_file fs path CBM_Model_zero = (True, model', out, file)"
  shows "length (seed model') = unat (seed_size (metadata model'))
       \<and> d_weights model' = 0
       \<and> weight_count model' = 0"
proof -
  have "d_weights model' = d_weights CBM_Model_zero"
    and "weight_count model' = weight_count CBM_Model_zero"
    using load_cbm_file_unchanged [of fs path CBM_Model_zero] assms by simp_all
  then show ?thesis
    using load_cbm_file_seed_length [OF assms] by (simp add: CBM_Model_zero_def)
qed

subsection \<open>The example container\<close>

lemma container_take4: "take 4 (container n payload) = take 4 CBM_MAGIC"
  by (simp add: container_def CBM_MAGIC_def)

lemma container_length: "length (container n payload) = 120 + length payload"
  by (simp add: container_def le_bytes_def)

lemma container_drop120: "drop 120 (container n payload) = payload"
  by (simp add: container_def le_bytes_def)

lemma container_seed_size_8: "le_word (take 4 (drop 112 (container 8 payload))) = (8 :: u32)"
  by (simp add: container_def le_bytes_def upt_rec)

lemma container_version: "take 2 (drop 4 (container n payload)) = [0x00, 0x01]"
  by (simp add: container_def)

lemma one_file_same: "one_file name bytes name = Some bytes"
  by (simp add: one_file_def)

text \<open>The container of the end-to-end example: seed size 8, seed bytes 1 to 8.\<close>

theorem successful_parse_model_witness:
  "\<exists>model' out file.
     load_cbm_file (one_file ''m.cbm'' (container 8 [1, 2, 3, 4, 5, 6, 7, 8])) ''m.cbm''
         CBM_Model_zero
       = (True, model', out, file)
     \<and> seed model' = [1, 2, 3, 4, 5, 6, 7, 8]
     \<and> length (seed model') = unat (seed_size (metadata model'))
     \<and> d_weights model' = 0
     \<and> weight_count model' = 0"
proof -
  let ?bs = "container 8 [1, 2, 3, 4, 5, 6, 7, 8]"
  have b: "120 \<le> length ?bs" by (simp add: container_length)
  from load_cbm_file_full_blocks [where fs = "one_file ''m.cbm'' ?bs" and path = "''m.cbm''",
         OF one_file_same b container_take4, of CBM_Model_zero]
  obtain model' out strm
    where eq: "load_cbm_file (one_file ''m.cbm'' ?bs) ''m.cbm'' CBM_Model_zero
                 = (True, model', out, strm)"
      and sz: "seed_size (metadata model') = le_word (take 4 (drop 112 ?bs))"
      and sd: "seed model' =
                 store_bytes (take (unat (seed_size (metadata model'))) (drop 120 ?bs))
                   (vector_resize (seed CBM_Model_zero) (unat (seed_size (metadata model'))))"
    by blast
  have sz8: "seed_size (metadata model') = 8"
    using sz by (simp only: container_seed_size_8)
  have "seed model' = [1, 2, 3, 4, 5, 6, 7, 8]"
    unfolding sd sz8 container_drop120
    by (simp add: store_bytes_def vector_resize_def CBM_Model_zero_def)
  with successful_parse_model [OF eq] eq show ?thesis by blast
qed

subsection \<open>The version field\<close>

lemma version_shift_mask:
  "drop_bit 8 (uint (v :: u16)) = uint v div 256 \<and> uint v AND 0xFF = uint v mod 256"
proof -
  have "uint v AND 0xFF = uint v AND mask 8" by (simp add: mask_eq_exp_minus_1)
  also have "\<dots> = take_bit 8 (uint v)" by (simp only: take_bit_eq_mask)
  also have "\<dots> = uint v mod 256" by (simp add: take_bit_eq_mod)
  finally show ?thesis by (simp add: drop_bit_eq_div)
qed

text \<open>
  Claim C9. For every file that can be opened and starts with the magic, whatever its
  version field holds, \<open>load_cbm_file\<close> returns \<open>true\<close>, and the first thing it prints is
  the version as the pair \<open>(version >> 8, version & 0xFF)\<close> of the 16-bit field it has
  stored in the header: the high byte \<open>version div 256\<close> as major and the low byte
  \<open>version mod 256\<close> as minor. When the file holds the two bytes of the field, the field is
  their little-endian value. The version 0x0100 prints as 1 and 0.
\<close>

theorem version_decoded_and_accepted:
  assumes "fs path = Some bytes" and "4 \<le> length bytes"
    and "take 4 bytes = take 4 CBM_MAGIC"
  shows "\<exists>model' out file.
           load_cbm_file fs path model =
             (True, model',
              CBM_File_Version (drop_bit 8 (uint (version (header model'))))
                               (uint (version (header model')) AND 0xFF) # out,
              file)
           \<and> drop_bit 8 (uint (version (header model'))) = uint (version (header model')) div 256
           \<and> uint (version (header model')) AND 0xFF = uint (version (header model')) mod 256
           \<and> (6 \<le> length bytes
                \<longrightarrow> version (header model') = le_word (take 2 (drop 4 bytes)))"
proof -
  from load_cbm_file_good_magic [where fs = fs and path = path, OF assms, of model]
  obtain model' out strm
    where eq: "load_cbm_file fs path model =
                 (True, model',
                  CBM_File_Version (drop_bit 8 (uint (version (header model'))))
                                   (uint (version (header model')) AND 0xFF) # out,
                  strm)"
      and hd: "header model' = CBMHeader_of_bytes
                                 (store_bytes (take 16 bytes) (CBMHeader_bytes (header model)))"
    by blast
  have "6 \<le> length bytes \<longrightarrow> version (header model') = le_word (take 2 (drop 4 bytes))"
    unfolding hd using header_read_version by blast
  with eq version_shift_mask [of "version (header model')"] show ?thesis by blast
qed

text \<open>Version 0x0100 is printed as major 1, minor 0.\<close>

theorem version_decoded_and_accepted_witness:
  "one_file ''m.cbm'' (container 8 [1, 2, 3, 4, 5, 6, 7, 8]) ''m.cbm''
       = Some (container 8 [1, 2, 3, 4, 5, 6, 7, 8])
     \<and> 6 \<le> length (container 8 [1, 2, 3, 4, 5, 6, 7, 8])
     \<and> take 4 (container 8 [1, 2, 3, 4, 5, 6, 7, 8]) = take 4 CBM_MAGIC
     \<and> (\<exists>model' out file.
           load_cbm_file (one_file ''m.cbm'' (container 8 [1, 2, 3, 4, 5, 6, 7, 8])) ''m.cbm''
               CBM_Model_zero
             = (True, model', CBM_File_Version 1 0 # out, file)
           \<and> version (header model') = 0x0100)"
proof -
  let ?bs = "container 8 [1, 2, 3, 4, 5, 6, 7, 8]"
  have b: "4 \<le> length ?bs" and b6: "6 \<le> length ?bs" by (simp_all add: container_length)
  from version_decoded_and_accepted
         [where fs = "one_file ''m.cbm'' ?bs" and path = "''m.cbm''",
          OF one_file_same b container_take4, of CBM_Model_zero]
  obtain model' out strm
    where eq: "load_cbm_file (one_file ''m.cbm'' ?bs) ''m.cbm'' CBM_Model_zero =
                 (True, model',
                  CBM_File_Version (drop_bit 8 (uint (version (header model'))))
                                   (uint (version (header model')) AND 0xFF) # out,
                  strm)"
      and v: "6 \<le> length ?bs \<longrightarrow> version (header model') = le_word (take 2 (drop 4 ?bs))"
    by blast
  from v b6 have v': "version (header model') = 0x0100"
    by (simp add: container_version)
  from eq have "load_cbm_file (one_file ''m.cbm'' ?bs) ''m.cbm'' CBM_Model_zero =
                 (True, model', CBM_File_Version 1 0 # out, strm)"
    unfolding v' by simp
  with v' b6 one_file_same [of "''m.cbm''" ?bs] container_take4 [of 8 "[1, 2, 3, 4, 5, 6, 7, 8]"]
  show ?thesis by blast
qed

subsection \<open>Truncated payloads\<close>

text \<open>
  Claim C1, as amended. \<open>load_cbm_file\<close> has no check for truncation. For every file that
  holds the header and metadata blocks, starts with the magic, and has fewer bytes
  after the metadata block than the \<open>seed_size\<close> it declares, the function returns \<open>true\<close>;
  the seed buffer has length \<open>seed_size\<close>, begins with the bytes that remain in the file,
  and keeps behind them what \<^verbatim>\<open>resize\<close> left there: zeros, for a record whose seed was empty
  before the call.
\<close>

theorem truncated_seed_accepted:
  assumes "fs path = Some bytes" and "120 \<le> length bytes"
    and "take 4 bytes = take 4 CBM_MAGIC"
    and "length bytes - 120 < unat (le_word (take 4 (drop 112 bytes)) :: u32)"
  shows "\<exists>model' out file.
           load_cbm_file fs path model = (True, model', out, file)
           \<and> seed_size (metadata model') = le_word (take 4 (drop 112 bytes))
           \<and> length (seed model') = unat (seed_size (metadata model'))
           \<and> seed model' =
               drop 120 bytes
                 @ drop (length bytes - 120)
                     (vector_resize (seed model) (unat (seed_size (metadata model'))))
           \<and> (seed model = [] \<longrightarrow>
                seed model' =
                  drop 120 bytes
                    @ replicate (unat (seed_size (metadata model')) - (length bytes - 120)) 0)"
proof -
  from load_cbm_file_full_blocks [where fs = fs and path = path, OF assms(1-3), of model]
  obtain model' out strm
    where eq: "load_cbm_file fs path model = (True, model', out, strm)"
      and sz: "seed_size (metadata model') = le_word (take 4 (drop 112 bytes))"
      and sd: "seed model' =
                 store_bytes (take (unat (seed_size (metadata model'))) (drop 120 bytes))
                   (vector_resize (seed model) (unat (seed_size (metadata model'))))"
    by blast
  let ?n = "unat (seed_size (metadata model'))"
  from assms(4) sz have short: "length bytes - 120 < ?n" by simp
  then have tk: "take ?n (drop 120 bytes) = drop 120 bytes" by simp
  have s1: "seed model' = drop 120 bytes @ drop (length bytes - 120) (vector_resize (seed model) ?n)"
    unfolding sd tk by (simp add: store_bytes_def)
  have s2: "seed model = [] \<longrightarrow>
              seed model' = drop 120 bytes @ replicate (?n - (length bytes - 120)) 0"
    unfolding s1 by (simp add: vector_resize_def)
  from eq sz load_cbm_file_seed_length [OF eq] s1 s2 show ?thesis by blast
qed

text \<open>A container that declares 8 seed bytes and holds 7.\<close>

theorem truncated_seed_accepted_witness:
  "one_file ''m.cbm'' (container 8 [1, 2, 3, 4, 5, 6, 7]) ''m.cbm''
       = Some (container 8 [1, 2, 3, 4, 5, 6, 7])
     \<and> 120 \<le> length (container 8 [1, 2, 3, 4, 5, 6, 7])
     \<and> take 4 (container 8 [1, 2, 3, 4, 5, 6, 7]) = take 4 CBM_MAGIC
     \<and> length (container 8 [1, 2, 3, 4, 5, 6, 7]) - 120
          < unat (le_word (take 4 (drop 112 (container 8 [1, 2, 3, 4, 5, 6, 7]))) :: u32)
     \<and> (\<exists>model' out file.
           load_cbm_file (one_file ''m.cbm'' (container 8 [1, 2, 3, 4, 5, 6, 7])) ''m.cbm''
               CBM_Model_zero
             = (True, model', out, file)
           \<and> seed_size (metadata model') = 8
           \<and> seed model' = [1, 2, 3, 4, 5, 6, 7, 0])"
proof -
  let ?bs = "container 8 [1, 2, 3, 4, 5, 6, 7]"
  have a: "one_file ''m.cbm'' ?bs ''m.cbm'' = Some ?bs" by (rule one_file_same)
  have b: "120 \<le> length ?bs" by (simp add: container_length)
  have c: "take 4 ?bs = take 4 CBM_MAGIC" by (rule container_take4)
  have d: "length ?bs - 120 < unat (le_word (take 4 (drop 112 ?bs)) :: u32)"
    by (simp add: container_length container_seed_size_8)
  from truncated_seed_accepted
         [where fs = "one_file ''m.cbm'' ?bs" and path = "''m.cbm''", OF a b c d,
          of CBM_Model_zero]
  obtain model' out strm
    where eq: "load_cbm_file (one_file ''m.cbm'' ?bs) ''m.cbm'' CBM_Model_zero
                 = (True, model', out, strm)"
      and sz: "seed_size (metadata model') = le_word (take 4 (drop 112 ?bs))"
      and sd: "seed CBM_Model_zero = [] \<longrightarrow>
                 seed model' =
                   drop 120 ?bs @ replicate (unat (seed_size (metadata model'))
                                               - (length ?bs - 120)) 0"
    by blast
  have sz8: "seed_size (metadata model') = 8"
    using sz by (simp only: container_seed_size_8)
  have "seed model' = [1, 2, 3, 4, 5, 6, 7, 0]"
    using sd unfolding sz8 container_drop120 container_length
    by (simp add: CBM_Model_zero_def)
  with eq sz8 a b c d show ?thesis by blast
qed

text \<open>
  Claim C1 as stated fails: the file is one byte short of the declared seed size, and
  the call succeeds with the seed buffer 1 to 7 followed by a zero.
\<close>

theorem truncated_seed_counterexample:
  "length (drop 120 (container 8 [1, 2, 3, 4, 5, 6, 7])) = 7
     \<and> fst (load_cbm_file (one_file ''m.cbm'' (container 8 [1, 2, 3, 4, 5, 6, 7])) ''m.cbm''
              CBM_Model_zero) = True
     \<and> seed_size (metadata (fst (snd
           (load_cbm_file (one_file ''m.cbm'' (container 8 [1, 2, 3, 4, 5, 6, 7])) ''m.cbm''
              CBM_Model_zero)))) = 8
     \<and> seed (fst (snd
           (load_cbm_file (one_file ''m.cbm'' (container 8 [1, 2, 3, 4, 5, 6, 7])) ''m.cbm''
              CBM_Model_zero))) = [1, 2, 3, 4, 5, 6, 7, 0]"
proof -
  let ?bs = "container 8 [1, 2, 3, 4, 5, 6, 7]"
  have b: "120 \<le> length ?bs" by (simp add: container_length)
  from load_cbm_file_full_blocks [where fs = "one_file ''m.cbm'' ?bs" and path = "''m.cbm''",
         OF one_file_same b container_take4, of CBM_Model_zero]
  obtain model' out strm
    where eq: "load_cbm_file (one_file ''m.cbm'' ?bs) ''m.cbm'' CBM_Model_zero
                 = (True, model', out, strm)"
      and sz: "seed_size (metadata model') = le_word (take 4 (drop 112 ?bs))"
      and sd: "seed model' =
                 store_bytes (take (unat (seed_size (metadata model'))) (drop 120 ?bs))
                   (vector_resize (seed CBM_Model_zero) (unat (seed_size (metadata model'))))"
    by blast
  have sz8: "seed_size (metadata model') = 8"
    using sz by (simp only: container_seed_size_8)
  have "seed model' = [1, 2, 3, 4, 5, 6, 7, 0]"
    unfolding sd sz8 container_drop120
    by (simp add: store_bytes_def vector_resize_def CBM_Model_zero_def)
  with eq sz8 show ?thesis by (simp add: container_drop120)
qed

subsection \<open>The command\<close>

lemma materialize_ok_iff:
  "fst (materialize_intelligence env model trace pc)
     = (fst (cudaMalloc env trace (d_weights model) (pc * 4)) = cudaSuccess)"
  by (simp add: materialize_intelligence_def Let_def split: prod.splits)

lemma materialize_target_message:
  "Target_Parameters pc \<in> set (snd (snd (snd (materialize_intelligence env model trace pc))))"
  by (simp add: materialize_intelligence_def Let_def split: prod.splits)

lemma load_cbm_file_open_failure:
  "fs path = None \<Longrightarrow> load_cbm_file fs path model = (False, model, [Failed_to_open path], None)"
  by (simp add: load_cbm_file_def)

lemma main_exit:
  "fst (main env fs argv) =
     (if length argv < 2 then Return 1
      else if \<not> fst (load_cbm_file fs (argv ! 1) CBM_Model_zero) then Return 1
      else case (if 3 \<le> length argv then stoull (argv ! 2) else Inr 7000000000) of
             Inl e \<Rightarrow> Uncaught e
           | Inr pc \<Rightarrow>
               if fst (materialize_intelligence env
                         (fst (snd (load_cbm_file fs (argv ! 1) CBM_Model_zero))) [] pc)
               then Return 0 else Return 1)"
  by (simp add: main_def Let_def split_beta split: sum.splits)

lemma main_default_message:
  assumes "length argv = 2" and "fst (load_cbm_file fs (argv ! 1) CBM_Model_zero)"
  shows "Target_Parameters 7000000000 \<in> set (snd (snd (main env fs argv)))"
  using assms
    materialize_target_message
      [of 7000000000 env "fst (snd (load_cbm_file fs (argv ! 1) CBM_Model_zero))" "[]"]
  by (simp add: main_def Let_def split_beta)

text \<open>
  Claim C8, as amended. The command takes a required file path and an optional parameter
  count that defaults to 7000000000. Its exit code is 0 exactly when the path is given,
  \<open>load_cbm_file\<close> returns \<open>true\<close>, the parameter count is read and
  \<open>materialize_intelligence\<close> returns \<open>true\<close>, which it does exactly when \<^verbatim>\<open>cudaMalloc\<close>
  grants the output buffer. A missing path, a file that cannot be opened, a magic mismatch
  and a rejected allocation of the output buffer each give exit code 1. Truncation is not
  among the failures: a truncated file is loaded as a success. Nor is the allocation of
  the buffer that stages the seed: its result is not checked and has no part in the exit
  code.
\<close>

theorem main_exit_codes:
  "(fst (main env fs argv) = Return 0 \<longleftrightarrow>
      2 \<le> length argv
      \<and> fst (load_cbm_file fs (argv ! 1) CBM_Model_zero)
      \<and> (\<exists>pc. (if 3 \<le> length argv then stoull (argv ! 2) else Inr 7000000000) = Inr pc
              \<and> fst (materialize_intelligence env
                        (fst (snd (load_cbm_file fs (argv ! 1) CBM_Model_zero))) [] pc)))
   \<and> (length argv < 2 \<longrightarrow> fst (main env fs argv) = Return 1)
   \<and> (2 \<le> length argv \<and> fs (argv ! 1) = None \<longrightarrow> fst (main env fs argv) = Return 1)
   \<and> (2 \<le> length argv \<and> fs (argv ! 1) = Some bytes
        \<and> take 4 bytes \<noteq> take 4 CBM_MAGIC
        \<longrightarrow> fst (main env fs argv) = Return 1)
   \<and> (2 \<le> length argv \<and> fst (load_cbm_file fs (argv ! 1) CBM_Model_zero)
        \<and> (if 3 \<le> length argv then stoull (argv ! 2) else Inr 7000000000) = Inr pc
        \<and> fst (cudaMalloc env [] 0 (pc * 4)) \<noteq> cudaSuccess
        \<longrightarrow> fst (main env fs argv) = Return 1)
   \<and> (length argv = 2 \<and> fst (load_cbm_file fs (argv ! 1) CBM_Model_zero)
        \<longrightarrow> Target_Parameters 7000000000 \<in> set (snd (snd (main env fs argv))))
   \<and> (fst (main env fs argv) = Return 0 \<longleftrightarrow>
        2 \<le> length argv
        \<and> fst (load_cbm_file fs (argv ! 1) CBM_Model_zero)
        \<and> (\<exists>pc. (if 3 \<le> length argv then stoull (argv ! 2) else Inr 7000000000) = Inr pc
                \<and> fst (cudaMalloc env [] 0 (pc * 4)) = cudaSuccess))
   \<and> fst (materialize_intelligence env model [] param_count)
        = (fst (cudaMalloc env [] (d_weights model) (param_count * 4)) = cudaSuccess)"
proof (intro conjI impI)
  show "fst (main env fs argv) = Return 0 \<longleftrightarrow>
      2 \<le> length argv
      \<and> fst (load_cbm_file fs (argv ! 1) CBM_Model_zero)
      \<and> (\<exists>pc. (if 3 \<le> length argv then stoull (argv ! 2) else Inr 7000000000) = Inr pc
              \<and> fst (materialize_intelligence env
                        (fst (snd (load_cbm_file fs (argv ! 1) CBM_Model_zero))) [] pc))"
    unfolding main_exit by (auto split: sum.splits)
next
  assume "length argv < 2"
  then show "fst (main env fs argv) = Return 1" by (simp add: main_exit)
next
  assume "2 \<le> length argv \<and> fs (argv ! 1) = None"
  then show "fst (main env fs argv) = Return 1"
    by (simp add: main_exit load_cbm_file_open_failure)
next
  assume h: "2 \<le> length argv \<and> fs (argv ! 1) = Some bytes
        \<and> take 4 bytes \<noteq> take 4 CBM_MAGIC"
  then have "\<not> fst (load_cbm_file fs (argv ! 1) CBM_Model_zero)"
    using load_cbm_file_mismatch [where fs = fs and path = "argv ! 1" and bytes = bytes,
            of CBM_Model_zero]
    by simp
  with h show "fst (main env fs argv) = Return 1" by (simp add: main_exit)
next
  assume h: "2 \<le> length argv \<and> fst (load_cbm_file fs (argv ! 1) CBM_Model_zero)
        \<and> (if 3 \<le> length argv then stoull (argv ! 2) else Inr 7000000000) = Inr pc
        \<and> fst (cudaMalloc env [] 0 (pc * 4)) \<noteq> cudaSuccess"
  have "d_weights (fst (snd (load_cbm_file fs (argv ! 1) CBM_Model_zero))) = 0"
    using load_cbm_file_unchanged [of fs "argv ! 1" CBM_Model_zero]
    by (simp add: CBM_Model_zero_def)
  with h have "\<not> fst (materialize_intelligence env
                        (fst (snd (load_cbm_file fs (argv ! 1) CBM_Model_zero))) [] pc)"
    by (simp add: materialize_ok_iff)
  with h show "fst (main env fs argv) = Return 1"
    unfolding main_exit by (auto split: sum.splits)
next
  assume "length argv = 2 \<and> fst (load_cbm_file fs (argv ! 1) CBM_Model_zero)"
  then show "Target_Parameters 7000000000 \<in> set (snd (snd (main env fs argv)))"
    using main_default_message by blast
next
  have "d_weights (fst (snd (load_cbm_file fs (argv ! 1) CBM_Model_zero))) = 0"
    using load_cbm_file_unchanged [of fs "argv ! 1" CBM_Model_zero]
    by (simp add: CBM_Model_zero_def)
  then show "fst (main env fs argv) = Return 0 \<longleftrightarrow>
        2 \<le> length argv
        \<and> fst (load_cbm_file fs (argv ! 1) CBM_Model_zero)
        \<and> (\<exists>pc. (if 3 \<le> length argv then stoull (argv ! 2) else Inr 7000000000) = Inr pc
                \<and> fst (cudaMalloc env [] 0 (pc * 4)) = cudaSuccess)"
    unfolding main_exit by (auto simp: materialize_ok_iff split: sum.splits)
next
  show "fst (materialize_intelligence env model [] param_count)
        = (fst (cudaMalloc env [] (d_weights model) (param_count * 4)) = cudaSuccess)"
    by (rule materialize_ok_iff)
qed

lemma container_load_ok:
  "fst (load_cbm_file (one_file name (container n payload)) name CBM_Model_zero)"
proof -
  have b: "120 \<le> length (container n payload)" by (simp add: container_length)
  from load_cbm_file_full_blocks
         [where fs = "one_file name (container n payload)" and path = name,
          OF one_file_same b container_take4, of CBM_Model_zero]
  show ?thesis by auto
qed

lemma stoull_16: "stoull ''16'' = Inr 16"
  by (simp add: stoull_def isdigit_def isspace_def)

lemma materialize_staging_unchecked:
  assumes "cudaMalloc env trace (d_weights model) (pc * 4) = (cudaSuccess, p)"
    and "cudaMalloc env (trace @ [CudaMalloc (pc * 4) cudaSuccess p]) (d_seed_uninit env)
           (of_nat (length (seed model))) = (err2, d_seed)"
  shows "materialize_intelligence env model trace pc
           = (True,
              model\<lparr>weight_count := pc, d_weights := p\<rparr>,
              trace @ [CudaMalloc (pc * 4) cudaSuccess p,
                       CudaMalloc (of_nat (length (seed model))) err2 d_seed,
                       CudaMemcpyHostToDevice d_seed (seed model) (of_nat (length (seed model))),
                       CudaFree d_seed],
              [Unfolding_line, Target_Parameters pc,
               Launching_Lambda_Kernel (launch_blocks pc) launch_threads,
               Materialization_Complete])"
  using assms by (simp add: materialize_intelligence_def Let_def)

lemma container8_load:
  "\<exists>model' out strm.
     load_cbm_file (one_file name (container 8 payload)) name CBM_Model_zero
       = (True, model', out, strm)
     \<and> length (seed model') = 8
     \<and> d_weights model' = 0"
proof -
  let ?bs = "container 8 payload"
  have b: "120 \<le> length ?bs" by (simp add: container_length)
  from load_cbm_file_full_blocks [where fs = "one_file name ?bs" and path = name,
         OF one_file_same b container_take4, of CBM_Model_zero]
  obtain model' out strm
    where eq: "load_cbm_file (one_file name ?bs) name CBM_Model_zero
                 = (True, model', out, strm)"
      and sz: "seed_size (metadata model') = le_word (take 4 (drop 112 ?bs))"
    by blast
  have sz8: "seed_size (metadata model') = 8"
    using sz by (simp only: container_seed_size_8)
  have l: "length (seed model') = 8"
    using load_cbm_file_seed_length [OF eq] sz8 by simp
  have d: "d_weights model' = 0"
    using load_cbm_file_unchanged [of "one_file name ?bs" name CBM_Model_zero] eq
    by (simp add: CBM_Model_zero_def)
  from eq l d show ?thesis by blast
qed

lemma stoull_1: "stoull ''1'' = Inr 1"
  by (simp add: stoull_def isdigit_def isspace_def)

text \<open>
  Claim C8 as stated fails for two of its failure categories. Truncation: on a file one
  byte short of its declared seed size, with a device that grants the allocation, the
  exit code is 0. Device allocation: when the runtime grants the output buffer and
  rejects the buffer that stages the seed, the failed call is in the trace and the exit
  code is 0.
\<close>

theorem main_truncated_counterexample:
  "length (drop 120 (container 8 [1, 2, 3, 4, 5, 6, 7])) = 7
     \<and> fst (main (env_capacity 1024) (one_file ''m.cbm'' (container 8 [1, 2, 3, 4, 5, 6, 7]))
              [''cbm_loader'', ''m.cbm'', ''16'']) = Return 0
     \<and> fst (main (env_capacity 4) (one_file ''m.cbm'' (container 8 [1, 2, 3, 4, 5, 6, 7, 8]))
              [''cbm_loader'', ''m.cbm'', ''1'']) = Return 0
     \<and> CudaMalloc 8 2 0
          \<in> set (fst (snd (main (env_capacity 4)
                   (one_file ''m.cbm'' (container 8 [1, 2, 3, 4, 5, 6, 7, 8]))
                   [''cbm_loader'', ''m.cbm'', ''1''])))"
proof -
  have t: "fst (materialize_intelligence (env_capacity 1024) m [] 16)" for m
    by (simp add: materialize_ok_iff env_capacity_def cudaSuccess_def)
  have p1: "length (drop 120 (container 8 [1, 2, 3, 4, 5, 6, 7])) = 7
     \<and> fst (main (env_capacity 1024) (one_file ''m.cbm'' (container 8 [1, 2, 3, 4, 5, 6, 7]))
              [''cbm_loader'', ''m.cbm'', ''16'']) = Return 0"
    using t by (simp add: main_exit container_load_ok stoull_16 container_drop120)
  from container8_load [of "''m.cbm''" "[1, 2, 3, 4, 5, 6, 7, 8]"]
  obtain model' out strm
    where eq: "load_cbm_file (one_file ''m.cbm'' (container 8 [1, 2, 3, 4, 5, 6, 7, 8])) ''m.cbm''
                 CBM_Model_zero = (True, model', out, strm)"
      and l: "length (seed model') = 8"
      and d: "d_weights model' = 0"
    by blast
  have a1: "cudaMalloc (env_capacity 4) [] (d_weights model') (1 * 4)
              = (cudaSuccess, 0x7F0000000000)"
    by (simp add: env_capacity_def cudaSuccess_def)
  have a2: "cudaMalloc (env_capacity 4) ([] @ [CudaMalloc (1 * 4) cudaSuccess 0x7F0000000000])
              (d_seed_uninit (env_capacity 4)) (of_nat (length (seed model'))) = (2, 0)"
    by (simp add: env_capacity_def l)
  note m = materialize_staging_unchecked [OF a1 a2]
  have p2: "fst (main (env_capacity 4) (one_file ''m.cbm'' (container 8 [1, 2, 3, 4, 5, 6, 7, 8]))
              [''cbm_loader'', ''m.cbm'', ''1'']) = Return 0"
    using m by (simp add: main_exit eq stoull_1)
  have p3: "CudaMalloc 8 2 0
          \<in> set (fst (snd (main (env_capacity 4)
                   (one_file ''m.cbm'' (container 8 [1, 2, 3, 4, 5, 6, 7, 8]))
                   [''cbm_loader'', ''m.cbm'', ''1''])))"
    using m by (simp add: main_def eq stoull_1 Let_def destroy_model_def l)
  from p1 p2 p3 show ?thesis by blast
qed

text \<open>
  The exit codes of a successful run with the default parameter count, of a run without
  a path, with a path that cannot be opened, with a bad magic, and with a device without
  memory.
\<close>

theorem main_exit_codes_witness:
  "fst (main (env_capacity 30000000000)
          (one_file ''m.cbm'' (container 8 [1, 2, 3, 4, 5, 6, 7, 8]))
          [''cbm_loader'', ''m.cbm'']) = Return 0
   \<and> Target_Parameters 7000000000
        \<in> set (snd (snd (main (env_capacity 30000000000)
                          (one_file ''m.cbm'' (container 8 [1, 2, 3, 4, 5, 6, 7, 8]))
                          [''cbm_loader'', ''m.cbm''])))
   \<and> fst (main (env_capacity 30000000000)
            (one_file ''m.cbm'' (container 8 [1, 2, 3, 4, 5, 6, 7, 8]))
            [''cbm_loader'']) = Return 1
   \<and> fst (main (env_capacity 30000000000)
            (one_file ''m.cbm'' (container 8 [1, 2, 3, 4, 5, 6, 7, 8]))
            [''cbm_loader'', ''x.cbm'']) = Return 1
   \<and> fst (main (env_capacity 30000000000)
            (one_file ''m.cbm'' ([0x43, 0x42, 0x4E, 0x52] @ replicate 200 7))
            [''cbm_loader'', ''m.cbm'']) = Return 1
   \<and> fst (main (env_capacity 0)
            (one_file ''m.cbm'' (container 8 [1, 2, 3, 4, 5, 6, 7, 8]))
            [''cbm_loader'', ''m.cbm'', ''16'']) = Return 1"
proof -
  let ?env = "env_capacity 30000000000"
  let ?good = "container 8 [1, 2, 3, 4, 5, 6, 7, 8]"
  let ?bad = "[0x43, 0x42, 0x4E, 0x52] @ replicate 200 (7 :: byte)"
  let ?fs = "one_file ''m.cbm'' ?good"
  have ld: "fst (load_cbm_file ?fs ''m.cbm'' CBM_Model_zero)"
    by (rule container_load_ok)
  have mat: "fst (materialize_intelligence ?env m [] 7000000000)" for m
    by (simp add: materialize_ok_iff env_capacity_def cudaSuccess_def)
  have w1: "fst (main ?env ?fs [''cbm_loader'', ''m.cbm'']) = Return 0"
    using main_exit_codes [of ?env ?fs "[''cbm_loader'', ''m.cbm'']"] ld mat by simp
  have w2: "Target_Parameters 7000000000
              \<in> set (snd (snd (main ?env ?fs [''cbm_loader'', ''m.cbm''])))"
    using main_exit_codes [of ?env ?fs "[''cbm_loader'', ''m.cbm'']"] ld by simp
  have w3: "fst (main ?env ?fs [''cbm_loader'']) = Return 1"
    using main_exit_codes [of ?env ?fs "[''cbm_loader'']"] by simp
  have w4: "fst (main ?env ?fs [''cbm_loader'', ''x.cbm'']) = Return 1"
    using main_exit_codes [of ?env ?fs "[''cbm_loader'', ''x.cbm'']"]
    by (simp add: one_file_def)
  have w5: "fst (main ?env (one_file ''m.cbm'' ?bad) [''cbm_loader'', ''m.cbm'']) = Return 1"
    using main_exit_codes [of ?env "one_file ''m.cbm'' ?bad" "[''cbm_loader'', ''m.cbm'']" ?bad]
    by (simp add: one_file_def CBM_MAGIC_def)
  have w6: "fst (main (env_capacity 0) ?fs [''cbm_loader'', ''m.cbm'', ''16'']) = Return 1"
    using main_exit_codes [of "env_capacity 0" ?fs "[''cbm_loader'', ''m.cbm'', ''16'']" _ 16] ld
    by (simp add: stoull_16 env_capacity_def cudaSuccess_def)
  from w1 w2 w3 w4 w5 w6 show ?thesis by blast
qed

end
